theory Spec2Isabelle
  imports Main "HOL-Library.Word"
begin

section \<open>rvnsqlite: a typed layer over an embedded storage engine\<close>

text \<open>
  The repository wraps the C interface of SQLite in three layers: \<^verbatim>\<open>Database\<close> and
  \<^verbatim>\<open>Statement\<close> (\<^verbatim>\<open>src/sqlite.cpp\<close>), the lazy \<^verbatim>\<open>Query\<close> (\<^verbatim>\<open>include/query.h\<close>) and the
  \<^verbatim>\<open>ResourceDatabase\<close> with its metadata envelope (\<^verbatim>\<open>resource_database.h/.cpp\<close>).

  The engine itself is an external library. It enters the model as a record of
  functions, one per C entry point the wrappers call, over a state type \<open>'s\<close> that
  stands for everything the engine holds behind the handles (connection and prepared
  statement). Every wrapper is a function of such an engine, so a theorem about a
  wrapper holds for every engine. A C++ exception is a value: a wrapper returns
  \<open>(error + 'a) \<times> 's\<close>, the outcome together with the engine state the call leaves
  behind, since what a call has done before it throws stays done.

  Unsigned C++ integers are words. The engine's signed integers (\<^verbatim>\<open>sqlite_int64\<close>,
  \<^verbatim>\<open>int\<close>) are modelled by their value, an \<open>int\<close>: the conversion
  \<^verbatim>\<open>static_cast<sqlite_int64>(u)\<close> of a 64-bit unsigned \<open>u\<close> is \<open>sint u\<close> (two's
  complement, which the source asserts statically), and the conversion back is
  \<open>word_of_int\<close>. The diagnostic texts of the exceptions and the \<^verbatim>\<open>name\<close> arguments
  that only feed them are left out.
\<close>

subsection \<open>Exceptions and enumerations\<close>

datatype error =
    DatabaseError
  | DatabaseNotFound
  | DatabaseBusy
  | OutOfBoundsError
  | WriteMetadataError
  | ReadMetadataError
  | logic_error
  | undefined_behaviour

text \<open>\<^verbatim>\<open>catch (DatabaseError&)\<close> catches the class and its three subclasses.\<close>

fun is_DatabaseError :: "error \<Rightarrow> bool" where
  "is_DatabaseError DatabaseError = True"
| "is_DatabaseError DatabaseNotFound = True"
| "is_DatabaseError DatabaseBusy = True"
| "is_DatabaseError OutOfBoundsError = True"
| "is_DatabaseError _ = False"

datatype OpenMode = Create | ReadWrite | ReadOnly

datatype StepResult = Done | Row

subsection \<open>The engine's interface\<close>

text \<open>Result codes and flags of \<^verbatim>\<open>sqlite3.h\<close>.\<close>

definition SQLITE_OK :: int where "SQLITE_OK = 0"
definition SQLITE_ERROR :: int where "SQLITE_ERROR = 1"
definition SQLITE_BUSY :: int where "SQLITE_BUSY = 5"
definition SQLITE_MISUSE :: int where "SQLITE_MISUSE = 21"
definition SQLITE_RANGE :: int where "SQLITE_RANGE = 25"
definition SQLITE_ROW :: int where "SQLITE_ROW = 100"
definition SQLITE_DONE :: int where "SQLITE_DONE = 101"

definition SQLITE_OPEN_READONLY :: int where "SQLITE_OPEN_READONLY = 1"
definition SQLITE_OPEN_READWRITE :: int where "SQLITE_OPEN_READWRITE = 2"
definition SQLITE_OPEN_CREATE :: int where "SQLITE_OPEN_CREATE = 4"

text \<open>
  A text or blob argument is a pointer and a byte count in C; here it is the string of
  those bytes. The last argument of the text and blob bindings tells whether the engine
  copies the bytes (\<^verbatim>\<open>SQLITE_TRANSIENT\<close>) or keeps the pointer (\<^verbatim>\<open>SQLITE_STATIC\<close>).
  \<open>sqlite3_column_text\<close> returns \<open>None\<close> for the null pointer and otherwise the bytes
  of the value, which the engine ends with a NUL.
\<close>

record 's engine =
  sqlite3_open_v2 :: "string \<Rightarrow> int \<Rightarrow> int \<times> 's"
  sqlite3_exec :: "'s \<Rightarrow> string \<Rightarrow> int \<times> 's"
  sqlite3_prepare_v2 :: "'s \<Rightarrow> string \<Rightarrow> int \<times> 's"
  sqlite3_finalize :: "'s \<Rightarrow> 's"
  sqlite3_bind_int64 :: "'s \<Rightarrow> int \<Rightarrow> int \<Rightarrow> int \<times> 's"
  sqlite3_bind_int :: "'s \<Rightarrow> int \<Rightarrow> int \<Rightarrow> int \<times> 's"
  sqlite3_bind_text :: "'s \<Rightarrow> int \<Rightarrow> string \<Rightarrow> bool \<Rightarrow> int \<times> 's"
  sqlite3_bind_text64 :: "'s \<Rightarrow> int \<Rightarrow> string \<Rightarrow> bool \<Rightarrow> int \<times> 's"
  sqlite3_bind_blob :: "'s \<Rightarrow> int \<Rightarrow> string \<Rightarrow> bool \<Rightarrow> int \<times> 's"
  sqlite3_bind_blob64 :: "'s \<Rightarrow> int \<Rightarrow> string \<Rightarrow> bool \<Rightarrow> int \<times> 's"
  sqlite3_bind_null :: "'s \<Rightarrow> int \<Rightarrow> int \<times> 's"
  sqlite3_step :: "'s \<Rightarrow> int \<times> 's"
  sqlite3_reset :: "'s \<Rightarrow> int \<times> 's"
  sqlite3_clear_bindings :: "'s \<Rightarrow> int \<times> 's"
  sqlite3_column_int64 :: "'s \<Rightarrow> int \<Rightarrow> int"
  sqlite3_column_int :: "'s \<Rightarrow> int \<Rightarrow> int"
  sqlite3_column_text :: "'s \<Rightarrow> int \<Rightarrow> string option"
  sqlite3_table_column_metadata :: "'s \<Rightarrow> string \<Rightarrow> string \<Rightarrow> int"

type_synonym ('a, 's) outcome = "(error + 'a) \<times> 's"

subsection \<open>Database (sqlite.cpp)\<close>

fun from_mode :: "OpenMode \<Rightarrow> int" where
  "from_mode Create = SQLITE_OPEN_READWRITE + SQLITE_OPEN_CREATE"
| "from_mode ReadOnly = SQLITE_OPEN_READONLY"
| "from_mode ReadWrite = SQLITE_OPEN_READWRITE"

text \<open>The constructor: a failed open leaves no object, only the exception.\<close>

definition Database :: "'s engine \<Rightarrow> string \<Rightarrow> OpenMode \<Rightarrow> error + 's" where
  "Database E filename mode =
     (case sqlite3_open_v2 E filename (from_mode mode) of
        (sqlite_result, raw_db) \<Rightarrow>
          if sqlite_result \<noteq> 0 then Inl DatabaseNotFound else Inr raw_db)"

definition from_memory :: "'s engine \<Rightarrow> error + 's" where
  "from_memory E = Database E '':memory:'' Create"

definition exec :: "'s engine \<Rightarrow> 's \<Rightarrow> string \<Rightarrow> (unit, 's) outcome" where
  "exec E db command =
     (case sqlite3_exec E db command of
        (sqlite_result, db') \<Rightarrow>
          if sqlite_result \<noteq> 0 then (Inl DatabaseError, db') else (Inr (), db'))"

subsection \<open>Statement: construction and bindings (sqlite.cpp)\<close>

definition Statement :: "'s engine \<Rightarrow> 's \<Rightarrow> string \<Rightarrow> (unit, 's) outcome" where
  "Statement E db stmt_str =
     (case sqlite3_prepare_v2 E db stmt_str of
        (sqlite_result, stmt) \<Rightarrow>
          if sqlite_result \<noteq> 0 then (Inl DatabaseError, stmt) else (Inr (), stmt))"

text \<open>
  Every binding method ends with the same two lines:
  \<^verbatim>\<open>if (sqlite_result) throw DatabaseError("Can't bind " + name + ...)\<close>.
\<close>

definition bind_result :: "int \<times> 's \<Rightarrow> (unit, 's) outcome" where
  "bind_result r =
     (case r of
        (sqlite_result, stmt') \<Rightarrow>
          if sqlite_result \<noteq> 0 then (Inl DatabaseError, stmt') else (Inr (), stmt'))"

definition INT64_MAX :: "64 word" where
  "INT64_MAX = 0x7FFFFFFFFFFFFFFF"

definition INT_MAX :: "32 word" where
  "INT_MAX = 0x7FFFFFFF"

definition signed_to_unsigned_offset :: "64 word" where
  "signed_to_unsigned_offset = 1 + INT64_MAX"

text \<open>
  \<^verbatim>\<open>return value - signed_to_unsigned_offset;\<close> subtracts in \<^verbatim>\<open>uint64_t\<close>, wrapping, and
  the \<^verbatim>\<open>return\<close> converts the difference to \<^verbatim>\<open>int64_t\<close>.
\<close>

definition unsigned_to_signed_int64 :: "64 word \<Rightarrow> int" where
  "unsigned_to_signed_int64 v = sint (v - signed_to_unsigned_offset)"

definition signed_to_unsigned_int64 :: "int \<Rightarrow> 64 word" where
  "signed_to_unsigned_int64 v = word_of_int v + signed_to_unsigned_offset"

definition bind_arg_cast :: "'s engine \<Rightarrow> 's \<Rightarrow> int \<Rightarrow> 64 word \<Rightarrow> (unit, 's) outcome" where
  "bind_arg_cast E stmt index v = bind_result (sqlite3_bind_int64 E stmt index (sint v))"

definition bind_arg_throw :: "'s engine \<Rightarrow> 's \<Rightarrow> int \<Rightarrow> 64 word \<Rightarrow> (unit, 's) outcome" where
  "bind_arg_throw E stmt index v =
     (if v > INT64_MAX then (Inl OutOfBoundsError, stmt)
      else bind_result (sqlite3_bind_int64 E stmt index (sint v)))"

definition bind_arg_slide :: "'s engine \<Rightarrow> 's \<Rightarrow> int \<Rightarrow> 64 word \<Rightarrow> (unit, 's) outcome" where
  "bind_arg_slide E stmt index v =
     bind_result (sqlite3_bind_int64 E stmt index (unsigned_to_signed_int64 v))"



definition bind_arg_cast_u32 :: "'s engine \<Rightarrow> 's \<Rightarrow> int \<Rightarrow> 32 word \<Rightarrow> (unit, 's) outcome" where
  "bind_arg_cast_u32 E stmt index v = bind_result (sqlite3_bind_int E stmt index (sint v))"

definition bind_arg_throw_u32 :: "'s engine \<Rightarrow> 's \<Rightarrow> int \<Rightarrow> 32 word \<Rightarrow> (unit, 's) outcome" where
  "bind_arg_throw_u32 E stmt index v =
     (if v > INT_MAX then (Inl OutOfBoundsError, stmt)
      else bind_result (sqlite3_bind_int64 E stmt index (sint v)))"






text \<open>
  Text and blobs. \<^verbatim>\<open>size > std::numeric_limits<int>::max()\<close> selects the 64-bit entry
  point. The overloads taking a \<^verbatim>\<open>std::string\<close> pass \<^verbatim>\<open>value.c_str()\<close> and
  \<^verbatim>\<open>value.size()\<close>, that is, all the bytes of the string.
\<close>

definition bind_text_impl ::
  "'s engine \<Rightarrow> 's \<Rightarrow> int \<Rightarrow> string \<Rightarrow> bool \<Rightarrow> (unit, 's) outcome" where
  "bind_text_impl E stmt index v is_transient =
     (if int (length v) > uint INT_MAX
      then bind_result (sqlite3_bind_text64 E stmt index v is_transient)
      else bind_result (sqlite3_bind_text E stmt index v is_transient))"

definition bind_blob_impl ::
  "'s engine \<Rightarrow> 's \<Rightarrow> int \<Rightarrow> string \<Rightarrow> bool \<Rightarrow> (unit, 's) outcome" where
  "bind_blob_impl E stmt index v is_transient =
     (if int (length v) > uint INT_MAX
      then bind_result (sqlite3_bind_blob64 E stmt index v is_transient)
      else bind_result (sqlite3_bind_blob E stmt index v is_transient))"

definition bind_text :: "'s engine \<Rightarrow> 's \<Rightarrow> int \<Rightarrow> string \<Rightarrow> (unit, 's) outcome" where
  "bind_text E stmt index v = bind_text_impl E stmt index v True"

definition bind_text_without_copy :: "'s engine \<Rightarrow> 's \<Rightarrow> int \<Rightarrow> string \<Rightarrow> (unit, 's) outcome" where
  "bind_text_without_copy E stmt index v = bind_text_impl E stmt index v False"

definition bind_blob :: "'s engine \<Rightarrow> 's \<Rightarrow> int \<Rightarrow> string \<Rightarrow> (unit, 's) outcome" where
  "bind_blob E stmt index v = bind_blob_impl E stmt index v True"

definition bind_blob_without_copy :: "'s engine \<Rightarrow> 's \<Rightarrow> int \<Rightarrow> string \<Rightarrow> (unit, 's) outcome" where
  "bind_blob_without_copy E stmt index v = bind_blob_impl E stmt index v False"


subsection \<open>Statement: columns, step, reset (sqlite.cpp)\<close>

definition column_i64 :: "'s engine \<Rightarrow> 's \<Rightarrow> int \<Rightarrow> int" where
  "column_i64 E stmt column = sqlite3_column_int64 E stmt column"

definition column_u64 :: "'s engine \<Rightarrow> 's \<Rightarrow> int \<Rightarrow> 64 word" where
  "column_u64 E stmt column = word_of_int (sqlite3_column_int64 E stmt column)"

definition column_u64_slide :: "'s engine \<Rightarrow> 's \<Rightarrow> int \<Rightarrow> 64 word" where
  "column_u64_slide E stmt column =
     signed_to_unsigned_int64 (sqlite3_column_int64 E stmt column)"

definition column_i32 :: "'s engine \<Rightarrow> 's \<Rightarrow> int \<Rightarrow> int" where
  "column_i32 E stmt column = sqlite3_column_int E stmt column"

definition column_u32 :: "'s engine \<Rightarrow> 's \<Rightarrow> int \<Rightarrow> 32 word" where
  "column_u32 E stmt column = word_of_int (sqlite3_column_int E stmt column)"

text \<open>
  \<^verbatim>\<open>std::string(const char*)\<close> copies the bytes up to the first NUL. Its behaviour on a
  null pointer is undefined in C++; the model stops there with \<open>undefined_behaviour\<close>.
\<close>

definition c_str_prefix :: "string \<Rightarrow> string" where
  "c_str_prefix bytes = takeWhile (\<lambda>c. c \<noteq> CHR 0x00) bytes"

definition column_text :: "'s engine \<Rightarrow> 's \<Rightarrow> int \<Rightarrow> error + string" where
  "column_text E stmt column =
     (case sqlite3_column_text E stmt column of
        None \<Rightarrow> Inl undefined_behaviour
      | Some bytes \<Rightarrow> Inr (c_str_prefix bytes))"

definition step :: "'s engine \<Rightarrow> 's \<Rightarrow> (StepResult, 's) outcome" where
  "step E stmt =
     (case sqlite3_step E stmt of
        (sqlite_result, stmt') \<Rightarrow>
          if sqlite_result = SQLITE_ROW then (Inr Row, stmt')
          else if sqlite_result = SQLITE_DONE then (Inr Done, stmt')
          else if sqlite_result = SQLITE_BUSY then (Inl DatabaseBusy, stmt')
          else if sqlite_result = SQLITE_MISUSE then (Inl logic_error, stmt')
          else (Inl DatabaseError, stmt'))"



subsection \<open>Query (query.h)\<close>

text \<open>
  A \<^verbatim>\<open>Query<T, F>\<close> owns the statement it was built from and a decoder \<^verbatim>\<open>f_\<close>, which
  reads the columns of the row the statement stands on; here the decoder is a function of
  the engine state. An \<^verbatim>\<open>Iterator\<close> holds a pointer to its query, null for the end
  position; \<open>'p\<close> is the type of addresses. Dereferencing a null pointer or an empty
  optional is undefined in C++ and ends the model with \<open>undefined_behaviour\<close>.
\<close>

text \<open>
  Isabelle reserves names that end with an underscore, so a member \<^verbatim>\<open>name_\<close> of a
  C++ class is the field \<open>m_name\<close> here.
\<close>

record ('a, 's) Query =
  m_current :: "'a option"
  m_fetch_stmt :: "'s option"
  m_f :: "'s \<Rightarrow> 'a"

record 'p Iterator =
  m_query :: "'p option"

text \<open>The constructor. If \<^verbatim>\<open>step\<close> throws, no query comes to exist.\<close>

definition Query :: "'s engine \<Rightarrow> 's \<Rightarrow> ('s \<Rightarrow> 'a) \<Rightarrow> error + ('a, 's) Query" where
  "Query E stmt f =
     (case step E stmt of
        (Inl e, stmt') \<Rightarrow> Inl e
      | (Inr Row, stmt') \<Rightarrow>
          Inr \<lparr>m_current = Some (f stmt'), m_fetch_stmt = Some stmt', m_f = f\<rparr>
      | (Inr Done, stmt') \<Rightarrow>
          Inr \<lparr>m_current = None, m_fetch_stmt = None, m_f = f\<rparr>)"

definition finished :: "('a, 's) Query \<Rightarrow> bool" where
  "finished q = (m_fetch_stmt q = None)"

definition Query_end :: "'p Iterator" where
  "Query_end = \<lparr>m_query = None\<rparr>"

definition Query_current :: "'p \<Rightarrow> ('a, 's) Query \<Rightarrow> 'p Iterator" where
  "Query_current this q = (if finished q then Query_end else \<lparr>m_query = Some this\<rparr>)"

definition Query_begin :: "'p \<Rightarrow> ('a, 's) Query \<Rightarrow> 'p Iterator" where
  "Query_begin this q = Query_current this q"

text \<open>\<^verbatim>\<open>operator==\<close> of the iterators compares the two pointers.\<close>

definition Iterator_eq :: "'p Iterator \<Rightarrow> 'p Iterator \<Rightarrow> bool" where
  "Iterator_eq a b = (m_query a = m_query b)"

text \<open>
  \<^verbatim>\<open>operator*\<close> and \<^verbatim>\<open>operator++\<close> of an iterator; \<open>q\<close> is the query the iterator
  points to when it points to one.
\<close>

definition operator_deref :: "'p Iterator \<Rightarrow> ('a, 's) Query \<Rightarrow> error + 'a" where
  "operator_deref it q =
     (case m_query it of
        None \<Rightarrow> Inl undefined_behaviour
      | Some _ \<Rightarrow>
          (case m_current q of None \<Rightarrow> Inl undefined_behaviour | Some v \<Rightarrow> Inr v))"

definition operator_inc ::
  "'s engine \<Rightarrow> 'p Iterator \<Rightarrow> ('a, 's) Query \<Rightarrow> (error + unit) \<times> 'p Iterator \<times> ('a, 's) Query" where
  "operator_inc E it q =
     (case m_query it of
        None \<Rightarrow> (Inl undefined_behaviour, it, q)
      | Some _ \<Rightarrow>
          (case m_fetch_stmt q of
             None \<Rightarrow> (Inl undefined_behaviour, it, q)
           | Some stmt \<Rightarrow>
               (case step E stmt of
                  (Inl e, stmt') \<Rightarrow> (Inl e, it, q\<lparr>m_fetch_stmt := Some stmt'\<rparr>)
                | (Inr Row, stmt') \<Rightarrow>
                    (Inr (), it, q\<lparr>m_current := Some (m_f q stmt'), m_fetch_stmt := Some stmt'\<rparr>)
                | (Inr Done, stmt') \<Rightarrow>
                    (Inr (), it\<lparr>m_query := None\<rparr>, q\<lparr>m_fetch_stmt := None\<rparr>))))"

text \<open>
  Reading a query to its end, as \<^verbatim>\<open>std::vector<T>(query.begin(), query.end())\<close> does
  in the tests: while the iterator differs from the end, take \<^verbatim>\<open>*it\<close> and advance. The
  engine may hand out rows for ever, so the loop carries fuel; \<open>None\<close> is fuel run out.
\<close>

fun collect ::
  "nat \<Rightarrow> 's engine \<Rightarrow> 'p Iterator \<Rightarrow> ('a, 's) Query \<Rightarrow> 'a list \<Rightarrow>
     ((error + 'a list) \<times> 'p Iterator \<times> ('a, 's) Query) option" where
  "collect 0 E it q acc = None"
| "collect (Suc n) E it q acc =
     (if Iterator_eq it Query_end then Some (Inr acc, it, q)
      else (case operator_deref it q of
              Inl e \<Rightarrow> Some (Inl e, it, q)
            | Inr v \<Rightarrow>
                (case operator_inc E it q of
                   (Inl e, it', q') \<Rightarrow> Some (Inl e, it', q')
                 | (Inr _, it', q') \<Rightarrow> collect n E it' q' (acc @ [v]))))"

declare collect.simps [simp del]

text \<open>
  A statement whose result set is the rows \<open>rs\<close>: stepping it reports a row and leaves
  the engine in the first state of \<open>rs\<close>, and so on, and after the last row reports the
  end. A row is given by the engine state that stands on it.
\<close>

fun produces :: "'s engine \<Rightarrow> 's \<Rightarrow> 's list \<Rightarrow> bool" where
  "produces E stmt [] = (fst (sqlite3_step E stmt) = SQLITE_DONE)"
| "produces E stmt (r # rs) =
     (fst (sqlite3_step E stmt) = SQLITE_ROW \<and> snd (sqlite3_step E stmt) = r \<and> produces E r rs)"

text \<open>
  The states a query can be in: the one its constructor builds, and every state an
  \<^verbatim>\<open>operator++\<close> on a valid iterator of an unfinished query leaves it in, whether the
  operator returns or throws. There is one query, so its address is \<open>()\<close>.
\<close>

inductive reachable :: "'s engine \<Rightarrow> ('a, 's) Query \<Rightarrow> bool" for E :: "'s engine" where
  constructed: "Query E stmt f = Inr q \<Longrightarrow> reachable E q"
| advanced: "reachable E q \<Longrightarrow> \<not> finished q \<Longrightarrow>
     operator_inc E \<lparr>m_query = Some ()\<rparr> q = (r, it', q') \<Longrightarrow> reachable E q'"

subsection \<open>Metadata and ResourceDatabase (resource_database.h, resource_database.cpp)\<close>

definition metadata_version :: "32 word" where
  "metadata_version = 1"

record Metadata =
  m_type :: "32 word"
  m_format_version :: string
  m_tool_name :: string
  m_tool_version :: string
  m_tool_info :: string
  m_generation_date :: "64 word"

record 's ResourceDatabase =
  m_db :: 's
  m_md :: Metadata
  m_md_version :: "32 word"

text \<open>Sequencing of two calls: an exception of the first skips the second.\<close>

definition and_then ::
  "('a, 's) outcome \<Rightarrow> ('a \<Rightarrow> 's \<Rightarrow> ('b, 's) outcome) \<Rightarrow> ('b, 's) outcome" where
  "and_then r k = (case r of (Inl e, s) \<Rightarrow> (Inl e, s) | (Inr a, s) \<Rightarrow> k a s)"

text \<open>
  The scope of a local \<^verbatim>\<open>Statement\<close>: the constructor, the body, and the destructor,
  which finalizes the statement on the normal and on the exceptional way out.
\<close>

definition with_Statement ::
  "'s engine \<Rightarrow> 's \<Rightarrow> string \<Rightarrow> ('s \<Rightarrow> ('a, 's) outcome) \<Rightarrow> ('a, 's) outcome" where
  "with_Statement E db stmt_str body =
     (case Statement E db stmt_str of
        (Inl e, db') \<Rightarrow> (Inl e, db')
      | (Inr _, stmt) \<Rightarrow> (case body stmt of (r, stmt') \<Rightarrow> (r, sqlite3_finalize E stmt')))"

definition create_table_sql :: string where
  "create_table_sql = ''create table _metadata (metadata_version int,type int,format_version text,tool_name text,tool_version text,tool_info text,generation_date int8);''"

definition insert_sql :: string where
  "insert_sql = ''insert into _metadata values(?,?,?,?,?,?,?);''"

definition update_sql :: string where
  "update_sql = ''update _metadata set metadata_version = ?,type = ?,format_version = ?,tool_name = ?,tool_version = ?,tool_info = ?,generation_date = ?;''"

definition select_sql :: string where
  "select_sql = ''select * from _metadata;''"

definition write_metadata :: "'s engine \<Rightarrow> 's \<Rightarrow> Metadata \<Rightarrow> (unit, 's) outcome" where
  "write_metadata E stmt metadata =
     and_then (bind_arg_cast_u32 E stmt 2 (m_type metadata)) (\<lambda>_ stmt.
     and_then (bind_text_without_copy E stmt 3 (m_format_version metadata)) (\<lambda>_ stmt.
     and_then (bind_text_without_copy E stmt 4 (m_tool_name metadata)) (\<lambda>_ stmt.
     and_then (bind_text_without_copy E stmt 5 (m_tool_version metadata)) (\<lambda>_ stmt.
     and_then (bind_text_without_copy E stmt 6 (m_tool_info metadata)) (\<lambda>_ stmt.
     and_then (bind_arg_cast E stmt 7 (m_generation_date metadata)) (\<lambda>_ stmt.
     and_then (step E stmt) (\<lambda>_ stmt. (Inr (), stmt))))))))"

definition create_metadata :: "'s engine \<Rightarrow> 's \<Rightarrow> Metadata \<Rightarrow> (unit, 's) outcome" where
  "create_metadata E db metadata =
     (case exec E db create_table_sql of
        (Inl e, db') \<Rightarrow> (Inl (if is_DatabaseError e then WriteMetadataError else e), db')
      | (Inr _, db') \<Rightarrow>
          with_Statement E db' insert_sql (\<lambda>stmt.
            and_then (bind_arg_cast_u32 E stmt 1 metadata_version) (\<lambda>_ stmt.
            write_metadata E stmt metadata)))"

definition update_metadata :: "'s engine \<Rightarrow> 's \<Rightarrow> Metadata \<Rightarrow> (unit, 's) outcome" where
  "update_metadata E db metadata =
     with_Statement E db update_sql (\<lambda>stmt.
       and_then (bind_arg_cast_u32 E stmt 1 metadata_version) (\<lambda>_ stmt.
       write_metadata E stmt metadata))"

text \<open>
  The part of \<^verbatim>\<open>read_metadata\<close> between the two calls of \<^verbatim>\<open>step\<close>: the probe for the
  \<^verbatim>\<open>metadata_version\<close> column and the reads, each at \<^verbatim>\<open>column_counter++\<close>.
\<close>

definition read_columns :: "'s engine \<Rightarrow> 's \<Rightarrow> error + 32 word \<times> Metadata" where
  "read_columns E stmt =
     (let has_version_column =
            (sqlite3_table_column_metadata E stmt ''_metadata'' ''metadata_version'' = SQLITE_OK);
          version = (if has_version_column then column_u32 E stmt 0 else 0);
          column_counter = (if has_version_column then 1 else 0)
      in if has_version_column \<and> version > metadata_version then Inl ReadMetadataError
         else
           (case column_text E stmt (column_counter + 1) of
              Inl e \<Rightarrow> Inl e
            | Inr format_version \<Rightarrow>
           (case column_text E stmt (column_counter + 2) of
              Inl e \<Rightarrow> Inl e
            | Inr tool_name \<Rightarrow>
           (case (if version \<ge> 1 then column_text E stmt (column_counter + 3)
                  else Inr ''1.0.0-prerelease'') of
              Inl e \<Rightarrow> Inl e
            | Inr tool_version \<Rightarrow>
           (let column_counter' =
                  (if version \<ge> 1 then column_counter + 4 else column_counter + 3)
            in case column_text E stmt column_counter' of
                 Inl e \<Rightarrow> Inl e
               | Inr tool_info \<Rightarrow>
                   Inr (version,
                        \<lparr>m_type = column_u32 E stmt column_counter,
                         m_format_version = format_version,
                         m_tool_name = tool_name,
                         m_tool_version = tool_version,
                         m_tool_info = tool_info,
                         m_generation_date = column_u64 E stmt (column_counter' + 1)\<rparr>))))))"

definition read_metadata :: "'s engine \<Rightarrow> 's \<Rightarrow> (32 word \<times> Metadata, 's) outcome" where
  "read_metadata E db =
     (case with_Statement E db select_sql (\<lambda>stmt.
             (case step E stmt of
                (Inl e, stmt') \<Rightarrow> (Inl e, stmt')
              | (Inr r, stmt') \<Rightarrow>
                  if r \<noteq> Row then (Inl ReadMetadataError, stmt')
                  else (case read_columns E stmt' of
                          Inl e \<Rightarrow> (Inl e, stmt')
                        | Inr result \<Rightarrow>
                            (case step E stmt' of
                               (Inl e, stmt'') \<Rightarrow> (Inl e, stmt'')
                             | (Inr r', stmt'') \<Rightarrow>
                                 if r' \<noteq> Done then (Inl ReadMetadataError, stmt'')
                                 else (Inr result, stmt''))))) of
        (Inl e, db') \<Rightarrow> (Inl (if is_DatabaseError e then ReadMetadataError else e), db')
      | (Inr result, db') \<Rightarrow> (Inr result, db'))"

text \<open>
  The factory functions construct the \<^verbatim>\<open>ResourceDatabase\<close> first; an exception after
  that destroys it, so a failed factory leaves only the exception.
\<close>

definition from_db :: "'s engine \<Rightarrow> 's \<Rightarrow> error + 's ResourceDatabase" where
  "from_db E db =
     (case read_metadata E db of
        (Inl e, db') \<Rightarrow> Inl e
      | (Inr (version, metadata), db') \<Rightarrow>
          Inr \<lparr>m_db = db', m_md = metadata, m_md_version = version\<rparr>)"

definition convert_db :: "'s engine \<Rightarrow> 's \<Rightarrow> Metadata \<Rightarrow> error + 's ResourceDatabase" where
  "convert_db E db metadata =
     (case create_metadata E db metadata of
        (Inl e, db') \<Rightarrow> Inl e
      | (Inr _, db') \<Rightarrow>
          Inr \<lparr>m_db = db', m_md = metadata, m_md_version = metadata_version\<rparr>)"



definition ResourceDatabase_from_memory :: "'s engine \<Rightarrow> Metadata \<Rightarrow> error + 's ResourceDatabase" where
  "ResourceDatabase_from_memory E metadata =
     (case from_memory E of
        Inl e \<Rightarrow> Inl e
      | Inr db \<Rightarrow> convert_db E db metadata)"

definition set_metadata ::
  "'s engine \<Rightarrow> 's ResourceDatabase \<Rightarrow> Metadata \<Rightarrow> (error + unit) \<times> 's ResourceDatabase" where
  "set_metadata E rdb metadata =
     (if m_md_version rdb \<noteq> metadata_version then (Inl WriteMetadataError, rdb)
      else (case update_metadata E (m_db rdb) metadata of
              (Inl e, db') \<Rightarrow> (Inl e, rdb\<lparr>m_db := db'\<rparr>)
            | (Inr _, db') \<Rightarrow> (Inr (), rdb\<lparr>m_db := db', m_md := metadata\<rparr>)))"

subsection \<open>A reference engine\<close>

text \<open>
  One engine to run the wrappers on: a connection with at most one table, the reserved
  \<^verbatim>\<open>_metadata\<close>, given by its column names and its rows, and at most one prepared
  statement. It understands the four SQL texts above and reports any other as an error.

  It follows the documentation of SQLite in what it covers: parameters are numbered from
  1 and start as NULL; a binding outside that range is \<open>SQLITE_RANGE\<close>; a binding on a
  statement that is not reset, and a step past the end, are \<open>SQLITE_MISUSE\<close>; a step
  while another process holds the lock is \<open>SQLITE_BUSY\<close>, which the next
  \<^verbatim>\<open>sqlite3_reset\<close> reports once more; a column outside the current row reads as NULL;
  NULL reads as the integer 0 and as the null pointer; \<^verbatim>\<open>sqlite3_column_int\<close> is
  \<^verbatim>\<open>sqlite3_column_int64\<close> cut to 32 bits. A value is stored as it was bound, which is
  what SQLite does with an integer in a column declared \<^verbatim>\<open>int\<close> or \<^verbatim>\<open>int8\<close> and with a
  text in a column declared \<^verbatim>\<open>text\<close>. How SQLite reads a text as an integer and an
  integer as a text is not modelled: the two conversions are parameters of the engine.
  There are no files: an open succeeds with the create flag only, on an empty database.
\<close>

datatype sql_value = IntegerV int | TextV string | BlobV string | NullV

datatype cursor = Unstepped | HasRow | AtDone

datatype stmt_kind = Insert | Update | Select

record prepared =
  p_kind :: stmt_kind
  p_params :: "sql_value list"
  p_cursor :: cursor
  p_pending :: "sql_value list list"
  p_row :: "sql_value list"
  p_last_rc :: int

record connection =
  c_table :: "(string list \<times> sql_value list list) option"
  c_locked :: bool
  c_stmt :: "prepared option"

definition v1_columns :: "string list" where
  "v1_columns = [''metadata_version'', ''type'', ''format_version'', ''tool_name'',
                 ''tool_version'', ''tool_info'', ''generation_date'']"

definition SQLITE_CANTOPEN :: int where "SQLITE_CANTOPEN = 14"

definition new_prepared :: "stmt_kind \<Rightarrow> nat \<Rightarrow> prepared" where
  "new_prepared k n =
     \<lparr>p_kind = k, p_params = replicate n NullV, p_cursor = Unstepped,
      p_pending = [], p_row = [], p_last_rc = SQLITE_OK\<rparr>"

definition ref_open :: "string \<Rightarrow> int \<Rightarrow> int \<times> connection" where
  "ref_open filename flags =
     (if flags = SQLITE_OPEN_READWRITE + SQLITE_OPEN_CREATE then SQLITE_OK else SQLITE_CANTOPEN,
      \<lparr>c_table = None, c_locked = False, c_stmt = None\<rparr>)"

definition ref_exec :: "connection \<Rightarrow> string \<Rightarrow> int \<times> connection" where
  "ref_exec c sql =
     (if c_locked c then (SQLITE_BUSY, c)
      else if sql = create_table_sql \<and> c_table c = None
      then (SQLITE_OK, c\<lparr>c_table := Some (v1_columns, [])\<rparr>)
      else (SQLITE_ERROR, c))"

definition ref_prepare :: "connection \<Rightarrow> string \<Rightarrow> int \<times> connection" where
  "ref_prepare c sql =
     (case c_table c of
        None \<Rightarrow> (SQLITE_ERROR, c\<lparr>c_stmt := None\<rparr>)
      | Some (cols, rows) \<Rightarrow>
          if sql = insert_sql \<and> length cols = 7
          then (SQLITE_OK, c\<lparr>c_stmt := Some (new_prepared Insert 7)\<rparr>)
          else if sql = update_sql \<and> set v1_columns \<subseteq> set cols
          then (SQLITE_OK, c\<lparr>c_stmt := Some (new_prepared Update 7)\<rparr>)
          else if sql = select_sql
          then (SQLITE_OK, c\<lparr>c_stmt := Some (new_prepared Select 0)\<rparr>)
          else (SQLITE_ERROR, c\<lparr>c_stmt := None\<rparr>))"

definition ref_finalize :: "connection \<Rightarrow> connection" where
  "ref_finalize c = c\<lparr>c_stmt := None\<rparr>"

definition ref_bind :: "connection \<Rightarrow> int \<Rightarrow> sql_value \<Rightarrow> int \<times> connection" where
  "ref_bind c index v =
     (case c_stmt c of
        None \<Rightarrow> (SQLITE_MISUSE, c)
      | Some p \<Rightarrow>
          if p_cursor p \<noteq> Unstepped then (SQLITE_MISUSE, c)
          else if index < 1 \<or> int (length (p_params p)) < index then (SQLITE_RANGE, c)
          else (SQLITE_OK, c\<lparr>c_stmt := Some (p\<lparr>p_params := (p_params p)[nat (index - 1) := v]\<rparr>)\<rparr>))"

text \<open>The row an update leaves: each column the statement names takes its parameter.\<close>

definition updated_row :: "string list \<Rightarrow> sql_value list \<Rightarrow> sql_value list \<Rightarrow> sql_value list" where
  "updated_row cols params old =
     map (\<lambda>(name, v). case map_of (zip v1_columns params) name of None \<Rightarrow> v | Some v' \<Rightarrow> v')
         (zip cols old)"

definition next_row :: "prepared \<Rightarrow> int \<times> prepared" where
  "next_row p =
     (case p_pending p of
        [] \<Rightarrow> (SQLITE_DONE, p\<lparr>p_cursor := AtDone, p_row := []\<rparr>)
      | r # rs \<Rightarrow> (SQLITE_ROW, p\<lparr>p_cursor := HasRow, p_row := r, p_pending := rs\<rparr>))"

definition ref_step :: "connection \<Rightarrow> int \<times> connection" where
  "ref_step c =
     (case c_stmt c of
        None \<Rightarrow> (SQLITE_MISUSE, c)
      | Some p \<Rightarrow>
          if c_locked c then (SQLITE_BUSY, c\<lparr>c_stmt := Some (p\<lparr>p_last_rc := SQLITE_BUSY\<rparr>)\<rparr>)
          else
            (case c_table c of
               None \<Rightarrow> (SQLITE_ERROR, c\<lparr>c_stmt := Some (p\<lparr>p_last_rc := SQLITE_ERROR\<rparr>)\<rparr>)
             | Some (cols, rows) \<Rightarrow>
                 (case p_cursor p of
                    AtDone \<Rightarrow> (SQLITE_MISUSE, c)
                  | HasRow \<Rightarrow>
                      (case next_row p of (rc, p') \<Rightarrow> (rc, c\<lparr>c_stmt := Some p'\<rparr>))
                  | Unstepped \<Rightarrow>
                      (case p_kind p of
                         Insert \<Rightarrow>
                           (SQLITE_DONE,
                            c\<lparr>c_table := Some (cols, rows @ [p_params p]),
                              c_stmt := Some (p\<lparr>p_cursor := AtDone\<rparr>)\<rparr>)
                       | Update \<Rightarrow>
                           (SQLITE_DONE,
                            c\<lparr>c_table := Some (cols, map (updated_row cols (p_params p)) rows),
                              c_stmt := Some (p\<lparr>p_cursor := AtDone\<rparr>)\<rparr>)
                       | Select \<Rightarrow>
                           (case next_row (p\<lparr>p_pending := rows\<rparr>) of
                              (rc, p') \<Rightarrow> (rc, c\<lparr>c_stmt := Some p'\<rparr>))))))"

definition ref_reset :: "connection \<Rightarrow> int \<times> connection" where
  "ref_reset c =
     (case c_stmt c of
        None \<Rightarrow> (SQLITE_OK, c)
      | Some p \<Rightarrow>
          (p_last_rc p,
           c\<lparr>c_stmt := Some (p\<lparr>p_cursor := Unstepped, p_pending := [], p_row := [],
                                p_last_rc := SQLITE_OK\<rparr>)\<rparr>))"

definition ref_clear_bindings :: "connection \<Rightarrow> int \<times> connection" where
  "ref_clear_bindings c =
     (case c_stmt c of
        None \<Rightarrow> (SQLITE_OK, c)
      | Some p \<Rightarrow>
          (SQLITE_OK, c\<lparr>c_stmt := Some (p\<lparr>p_params := replicate (length (p_params p)) NullV\<rparr>)\<rparr>))"

definition ref_column :: "connection \<Rightarrow> int \<Rightarrow> sql_value" where
  "ref_column c column =
     (case c_stmt c of
        None \<Rightarrow> NullV
      | Some p \<Rightarrow>
          if p_cursor p = HasRow \<and> 0 \<le> column \<and> column < int (length (p_row p))
          then p_row p ! nat column else NullV)"

fun value_int64 :: "(string \<Rightarrow> int) \<Rightarrow> sql_value \<Rightarrow> int" where
  "value_int64 text_to_int (IntegerV i) = i"
| "value_int64 text_to_int (TextV s) = text_to_int s"
| "value_int64 text_to_int (BlobV s) = text_to_int s"
| "value_int64 text_to_int NullV = 0"

fun value_text :: "(int \<Rightarrow> string) \<Rightarrow> sql_value \<Rightarrow> string option" where
  "value_text int_to_text (IntegerV i) = Some (int_to_text i)"
| "value_text int_to_text (TextV s) = Some s"
| "value_text int_to_text (BlobV s) = Some s"
| "value_text int_to_text NullV = None"

definition ref_table_column_metadata :: "connection \<Rightarrow> string \<Rightarrow> string \<Rightarrow> int" where
  "ref_table_column_metadata c table_name column_name =
     (case c_table c of
        None \<Rightarrow> SQLITE_ERROR
      | Some (cols, rows) \<Rightarrow>
          if table_name = ''_metadata'' \<and> column_name \<in> set cols then SQLITE_OK
          else SQLITE_ERROR)"

definition reference_engine :: "(string \<Rightarrow> int) \<Rightarrow> (int \<Rightarrow> string) \<Rightarrow> connection engine" where
  "reference_engine text_to_int int_to_text =
     \<lparr>sqlite3_open_v2 = ref_open,
      sqlite3_exec = ref_exec,
      sqlite3_prepare_v2 = ref_prepare,
      sqlite3_finalize = ref_finalize,
      sqlite3_bind_int64 = (\<lambda>c i v. ref_bind c i (IntegerV v)),
      sqlite3_bind_int = (\<lambda>c i v. ref_bind c i (IntegerV v)),
      sqlite3_bind_text = (\<lambda>c i v t. ref_bind c i (TextV v)),
      sqlite3_bind_text64 = (\<lambda>c i v t. ref_bind c i (TextV v)),
      sqlite3_bind_blob = (\<lambda>c i v t. ref_bind c i (BlobV v)),
      sqlite3_bind_blob64 = (\<lambda>c i v t. ref_bind c i (BlobV v)),
      sqlite3_bind_null = (\<lambda>c i. ref_bind c i NullV),
      sqlite3_step = ref_step,
      sqlite3_reset = ref_reset,
      sqlite3_clear_bindings = ref_clear_bindings,
      sqlite3_column_int64 = (\<lambda>c k. value_int64 text_to_int (ref_column c k)),
      sqlite3_column_int =
        (\<lambda>c k. sint (word_of_int (value_int64 text_to_int (ref_column c k)) :: 32 word)),
      sqlite3_column_text = (\<lambda>c k. value_text int_to_text (ref_column c k)),
      sqlite3_table_column_metadata = ref_table_column_metadata\<rparr>"

text \<open>
  Fixtures, after \<^verbatim>\<open>test_helpers.h\<close> and \<^verbatim>\<open>test_query.cpp\<close>: the engine with two
  arbitrary conversions, a table \<^verbatim>\<open>x\<close> of one column with a new select statement on it,
  the state of that statement standing on a row, and the decoder \<^verbatim>\<open>fetch_value\<close>.
\<close>

definition test_engine :: "connection engine" where
  "test_engine = reference_engine (\<lambda>_. 0) (\<lambda>_. [])"

definition get_fetch_stmt :: "sql_value list list \<Rightarrow> connection" where
  "get_fetch_stmt rows =
     \<lparr>c_table = Some ([''x''], rows), c_locked = False,
      c_stmt = Some (new_prepared Select 0)\<rparr>"

definition standing_on ::
  "sql_value list list \<Rightarrow> sql_value list \<Rightarrow> sql_value list list \<Rightarrow> connection" where
  "standing_on rows r pending =
     \<lparr>c_table = Some ([''x''], rows), c_locked = False,
      c_stmt = Some \<lparr>p_kind = Select, p_params = [], p_cursor = HasRow,
                     p_pending = pending, p_row = r, p_last_rc = SQLITE_OK\<rparr>\<rparr>"

definition fetch_value :: "'s engine \<Rightarrow> 's \<Rightarrow> 64 word" where
  "fetch_value E stmt = word_of_int (column_i64 E stmt 0)"

text \<open>
  \<^verbatim>\<open>MetadataWriter::write\<close> and the metadata of \<^verbatim>\<open>test_resource.cpp\<close>; a connection on
  an empty database; and a database of the legacy schema, whose \<^verbatim>\<open>_metadata\<close> has the
  five columns of version 0 and one row.
\<close>

definition MetadataWriter_write ::
  "32 word \<Rightarrow> string \<Rightarrow> string \<Rightarrow> string \<Rightarrow> string \<Rightarrow> 64 word \<Rightarrow> Metadata" where
  "MetadataWriter_write type format_version tool_name tool_version tool_info generation_date =
     \<lparr>m_type = type, m_format_version = format_version, m_tool_name = tool_name,
      m_tool_version = tool_version, m_tool_info = tool_info,
      m_generation_date = generation_date\<rparr>"

definition dummy_md :: Metadata where
  "dummy_md = MetadataWriter_write 42 ''1.0.0-dummy'' ''TestMetaDataWriter'' ''1.0.0''
                ''Tests version 1.0.0'' 42424242"

definition empty_db :: connection where
  "empty_db = \<lparr>c_table = None, c_locked = False, c_stmt = None\<rparr>"

definition legacy_db :: connection where
  "legacy_db =
     \<lparr>c_table = Some ([''type'', ''format_version'', ''tool_name'', ''tool_info'',
                        ''generation_date''],
                       [[IntegerV 42, TextV ''1.0.0-dummy'', TextV ''TestMetaDataWriter'',
                         TextV ''Tests version 1.0.0'', IntegerV 42424242]]),
      c_locked = False, c_stmt = None\<rparr>"

subsection \<open>A monitor of the engine's results\<close>






section \<open>Properties of the integer bindings\<close>

text \<open>The closed examples below run on the reference engine.\<close>

lemmas engine_simps = test_engine_def reference_engine_def ref_step_def ref_column_def
  ref_bind_def ref_reset_def ref_exec_def ref_prepare_def ref_open_def ref_finalize_def
  ref_clear_bindings_def ref_table_column_metadata_def next_row_def new_prepared_def
  get_fetch_stmt_def standing_on_def
  SQLITE_OK_def SQLITE_ERROR_def SQLITE_BUSY_def SQLITE_MISUSE_def SQLITE_RANGE_def
  SQLITE_ROW_def SQLITE_DONE_def SQLITE_CANTOPEN_def
  SQLITE_OPEN_READONLY_def SQLITE_OPEN_READWRITE_def SQLITE_OPEN_CREATE_def


lemma sql_distinct:
  "select_sql \<noteq> insert_sql" "select_sql \<noteq> update_sql" "update_sql \<noteq> insert_sql"
  "insert_sql \<noteq> select_sql" "update_sql \<noteq> select_sql" "insert_sql \<noteq> update_sql"
  by (simp_all add: select_sql_def insert_sql_def update_sql_def)

lemma length_v1_columns: "length v1_columns = 7"
  by (simp add: v1_columns_def)

lemma replicate_7: "replicate 7 x = [x, x, x, x, x, x, x]"
  by (simp add: eval_nat_numeral)

lemma unsigned_to_signed_int64_value: "unsigned_to_signed_int64 v = uint v - 2 ^ 63"
proof -
  have "v - signed_to_unsigned_offset = word_of_int (uint v - 2 ^ 63)"
    by (simp add: signed_to_unsigned_offset_def INT64_MAX_def)
  then have "unsigned_to_signed_int64 v = signed_take_bit 63 (uint v - 2 ^ 63)"
    unfolding unsigned_to_signed_int64_def by (simp only: sint_sbintrunc') simp
  moreover have "uint v < 2 ^ 64"
    using uint_bounded [of v] by simp
  moreover have "0 \<le> uint v"
    by simp
  ultimately show ?thesis
    by (simp add: signed_take_bit_int_eq_self)
qed

lemma sint_in_signed_range:
  fixes v :: "64 word"
  assumes "v \<le> INT64_MAX"
  shows "sint v = uint v"
proof -
  from assms have "uint v \<le> 0x7FFFFFFFFFFFFFFF"
    by (simp add: word_le_def INT64_MAX_def)
  moreover have "- (2 ^ 63) \<le> uint v"
    by (rule order_trans [OF _ uint_ge_0]) simp
  ultimately have "signed_take_bit 63 (uint v) = uint v"
    by (intro signed_take_bit_int_eq_self) simp_all
  then show ?thesis
    by (simp add: sint_uint)
qed

text \<open>
  C1. Slide round trip. For every 64-bit unsigned \<open>v\<close>, decoding the encoded value
  gives \<open>v\<close> back. \<^verbatim>\<open>bind_arg_slide\<close> hands the engine the signed number \<open>v - 2^63\<close>,
  and \<^verbatim>\<open>column_u64_slide\<close>, on a column where the engine returns that number, returns
  \<open>v\<close>.
\<close>

theorem slide_round_trip:
  "signed_to_unsigned_int64 (unsigned_to_signed_int64 v) = v \<and>
   bind_arg_slide E stmt index v =
     bind_result (sqlite3_bind_int64 E stmt index (uint v - 2 ^ 63)) \<and>
   (sqlite3_column_int64 E stmt' column = uint v - 2 ^ 63 \<longrightarrow>
      column_u64_slide E stmt' column = v)"
proof -
  have rt: "signed_to_unsigned_int64 (unsigned_to_signed_int64 v) = v"
    by (simp add: signed_to_unsigned_int64_def unsigned_to_signed_int64_def)
  then have "signed_to_unsigned_int64 (uint v - 2 ^ 63) = v"
    by (simp only: unsigned_to_signed_int64_value)
  with rt show ?thesis
    by (simp add: bind_arg_slide_def column_u64_slide_def unsigned_to_signed_int64_value)
qed

text \<open>The largest value, \<open>2^64 - 1\<close>, is stored as \<open>2^63 - 1\<close> and read back.\<close>

theorem slide_round_trip_witness:
  "sqlite3_column_int64 test_engine
     (standing_on [[IntegerV 9223372036854775807]] [IntegerV 9223372036854775807] []) 0
     = uint (0xFFFFFFFFFFFFFFFF :: 64 word) - 2 ^ 63 \<and>
   column_u64_slide test_engine
     (standing_on [[IntegerV 9223372036854775807]] [IntegerV 9223372036854775807] []) 0
     = 0xFFFFFFFFFFFFFFFF"
  using slide_round_trip [where v = "0xFFFFFFFFFFFFFFFF" and column = 0
     and E = "test_engine"
     and stmt' = "standing_on [[IntegerV 9223372036854775807]] [IntegerV 9223372036854775807] []"]
  by (simp add: bind_result_def engine_simps)

text \<open>
  C2. The slide encoding is strictly monotone: \<open>a < b\<close> as unsigned 64-bit values
  implies that the encoding of \<open>a\<close> is less than the encoding of \<open>b\<close> as signed values.
\<close>

theorem slide_monotone:
  "a < b \<Longrightarrow> unsigned_to_signed_int64 a < unsigned_to_signed_int64 b"
  by (simp add: unsigned_to_signed_int64_value word_less_def)

text \<open>At the boundary: \<open>2^63 - 1\<close> and \<open>2^63\<close> are encoded as \<open>-1\<close> and \<open>0\<close>.\<close>

theorem slide_monotone_witness:
  "(0x7FFFFFFFFFFFFFFF :: 64 word) < 0x8000000000000000 \<and>
   unsigned_to_signed_int64 0x7FFFFFFFFFFFFFFF = - 1 \<and>
   unsigned_to_signed_int64 0x8000000000000000 = 0 \<and>
   unsigned_to_signed_int64 0x7FFFFFFFFFFFFFFF < unsigned_to_signed_int64 0x8000000000000000"
  using slide_monotone [of "0x7FFFFFFFFFFFFFFF" "0x8000000000000000"]
  by (simp add: unsigned_to_signed_int64_value)

lemma bind_arg_throw_valid_index:
  assumes "v \<le> INT64_MAX" and "c_stmt c = Some p" and "p_cursor p = Unstepped"
    and "1 \<le> index" and "index \<le> int (length (p_params p))"
  shows "bind_arg_throw (reference_engine t2i i2t) c index v =
         (Inr (), c\<lparr>c_stmt := Some (p\<lparr>p_params := (p_params p)[nat (index - 1) := IntegerV (uint v)]\<rparr>)\<rparr>)"
  using assms
  by (simp add: bind_arg_throw_def bind_result_def sint_in_signed_range engine_simps)

lemma stored_value_read_back:
  assumes "v \<le> INT64_MAX" and "c_table c = Some (cols, [])" and "length cols = 7"
    and "\<not> c_locked c" and "c_stmt c = Some (new_prepared Insert 7)"
    and "1 \<le> index" and "index \<le> 7"
  shows "\<exists>c1 c2 c3 c4.
           bind_arg_throw (reference_engine t2i i2t) c index v = (Inr (), c1) \<and>
           step (reference_engine t2i i2t) c1 = (Inr Done, c2) \<and>
           Statement (reference_engine t2i i2t)
             (sqlite3_finalize (reference_engine t2i i2t) c2) select_sql = (Inr (), c3) \<and>
           step (reference_engine t2i i2t) c3 = (Inr Row, c4) \<and>
           column_u64 (reference_engine t2i i2t) c4 (index - 1) = v"
  using assms
  by (simp add: bind_arg_throw_def bind_result_def sint_in_signed_range step_def Statement_def
      column_u64_def sql_distinct engine_simps)


text \<open>
  C3. The throwing binding of a 64-bit unsigned \<open>v\<close>. If \<open>v \<le> INT64_MAX\<close>,
  \<^verbatim>\<open>bind_arg_throw\<close> hands the engine the number \<open>v\<close> itself and succeeds wherever the
  engine accepts the binding; on the reference engine that is every parameter of a
  statement that has not been stepped. \<^verbatim>\<open>column_u64\<close> returns \<open>v\<close> on a column where
  the engine returns that number; on the reference engine, binding \<open>v\<close> to a parameter
  of the insert statement, stepping it, and selecting the row gives \<open>v\<close> back in the
  column of that parameter. If \<open>v > INT64_MAX\<close>, \<^verbatim>\<open>bind_arg_throw\<close> throws
  \<^verbatim>\<open>OutOfBoundsError\<close>.
\<close>

theorem bind_arg_throw_policy:
  "(v \<le> INT64_MAX \<longrightarrow>
      bind_arg_throw E stmt index v = bind_result (sqlite3_bind_int64 E stmt index (uint v)) \<and>
      (fst (sqlite3_bind_int64 E stmt index (uint v)) = SQLITE_OK \<longrightarrow>
         bind_arg_throw E stmt index v = (Inr (), snd (sqlite3_bind_int64 E stmt index (uint v)))) \<and>
      (sqlite3_column_int64 E stmt' column = uint v \<longrightarrow> column_u64 E stmt' column = v) \<and>
      (c_stmt c = Some p \<longrightarrow> p_cursor p = Unstepped \<longrightarrow>
       1 \<le> index \<longrightarrow> index \<le> int (length (p_params p)) \<longrightarrow>
         bind_arg_throw (reference_engine t2i i2t) c index v =
           (Inr (), c\<lparr>c_stmt := Some (p\<lparr>p_params :=
                      (p_params p)[nat (index - 1) := IntegerV (uint v)]\<rparr>)\<rparr>)) \<and>
      (c_table c = Some (cols, []) \<longrightarrow> length cols = 7 \<longrightarrow> \<not> c_locked c \<longrightarrow>
       c_stmt c = Some (new_prepared Insert 7) \<longrightarrow> 1 \<le> index \<longrightarrow> index \<le> 7 \<longrightarrow>
         (\<exists>c1 c2 c3 c4.
            bind_arg_throw (reference_engine t2i i2t) c index v = (Inr (), c1) \<and>
            step (reference_engine t2i i2t) c1 = (Inr Done, c2) \<and>
            Statement (reference_engine t2i i2t)
              (sqlite3_finalize (reference_engine t2i i2t) c2) select_sql = (Inr (), c3) \<and>
            step (reference_engine t2i i2t) c3 = (Inr Row, c4) \<and>
            column_u64 (reference_engine t2i i2t) c4 (index - 1) = v))) \<and>
   (v > INT64_MAX \<longrightarrow> fst (bind_arg_throw E stmt index v) = Inl OutOfBoundsError)"
proof -
  have a: "bind_arg_throw E stmt index v = bind_result (sqlite3_bind_int64 E stmt index (uint v))"
    if "v \<le> INT64_MAX"
    using that by (auto simp add: bind_arg_throw_def sint_in_signed_range)
  have b: "bind_arg_throw E stmt index v = (Inr (), snd (sqlite3_bind_int64 E stmt index (uint v)))"
    if "v \<le> INT64_MAX" "fst (sqlite3_bind_int64 E stmt index (uint v)) = SQLITE_OK"
    using that a by (cases "sqlite3_bind_int64 E stmt index (uint v)")
      (simp add: bind_result_def SQLITE_OK_def)
  have c: "column_u64 E stmt' column = v" if "sqlite3_column_int64 E stmt' column = uint v"
    using that by (simp add: column_u64_def)
  have d: "fst (bind_arg_throw E stmt index v) = Inl OutOfBoundsError" if "v > INT64_MAX"
    using that by (simp add: bind_arg_throw_def)
  from a b c d bind_arg_throw_valid_index [of v c p index t2i i2t]
    stored_value_read_back [of v c cols index t2i i2t]
  show ?thesis
    by blast
qed

text \<open>The largest value that is bound, \<open>INT64_MAX\<close>, and the least that is refused.\<close>

theorem bind_arg_throw_policy_witness:
  "(0x7FFFFFFFFFFFFFFF :: 64 word) \<le> INT64_MAX \<and>
   bind_arg_throw test_engine
     \<lparr>c_table = Some (v1_columns, []), c_locked = False,
      c_stmt = Some (new_prepared Insert 7)\<rparr> 7 0x7FFFFFFFFFFFFFFF =
     (Inr (),
      \<lparr>c_table = Some (v1_columns, []), c_locked = False,
       c_stmt = Some ((new_prepared Insert 7)\<lparr>p_params :=
          [NullV, NullV, NullV, NullV, NullV, NullV, IntegerV 9223372036854775807]\<rparr>)\<rparr>) \<and>
   (\<exists>c1 c2 c3 c4.
      bind_arg_throw test_engine
        \<lparr>c_table = Some (v1_columns, []), c_locked = False,
         c_stmt = Some (new_prepared Insert 7)\<rparr> 7 0x7FFFFFFFFFFFFFFF = (Inr (), c1) \<and>
      step test_engine c1 = (Inr Done, c2) \<and>
      Statement test_engine (sqlite3_finalize test_engine c2) select_sql = (Inr (), c3) \<and>
      step test_engine c3 = (Inr Row, c4) \<and>
      column_u64 test_engine c4 6 = 0x7FFFFFFFFFFFFFFF) \<and>
   (0x8000000000000000 :: 64 word) > INT64_MAX \<and>
   fst (bind_arg_throw test_engine
     \<lparr>c_table = Some (v1_columns, []), c_locked = False,
      c_stmt = Some (new_prepared Insert 7)\<rparr> 7 0x8000000000000000) = Inl OutOfBoundsError"
proof -
  let ?c = "\<lparr>c_table = Some (v1_columns, []), c_locked = False,
             c_stmt = Some (new_prepared Insert 7)\<rparr>"
  note w = bind_arg_throw_policy [where v = "0x7FFFFFFFFFFFFFFF" and index = 7 and c = ?c
      and p = "new_prepared Insert 7" and cols = v1_columns
      and t2i = "\<lambda>_. 0" and i2t = "\<lambda>_. []"
      and E = test_engine and stmt = ?c and stmt' = ?c and column = 0]
  have le: "(0x7FFFFFFFFFFFFFFF :: 64 word) \<le> INT64_MAX"
    by (simp add: INT64_MAX_def)
  have b: "bind_arg_throw test_engine ?c 7 0x7FFFFFFFFFFFFFFF =
     (Inr (),
      \<lparr>c_table = Some (v1_columns, []), c_locked = False,
       c_stmt = Some ((new_prepared Insert 7)\<lparr>p_params :=
          [NullV, NullV, NullV, NullV, NullV, NullV, IntegerV 9223372036854775807]\<rparr>)\<rparr>)"
    by (simp add: bind_arg_throw_def INT64_MAX_def bind_result_def engine_simps replicate_7
        eval_nat_numeral)
  have e: "\<exists>c1 c2 c3 c4.
      bind_arg_throw test_engine ?c 7 0x7FFFFFFFFFFFFFFF = (Inr (), c1) \<and>
      step test_engine c1 = (Inr Done, c2) \<and>
      Statement test_engine (sqlite3_finalize test_engine c2) select_sql = (Inr (), c3) \<and>
      step test_engine c3 = (Inr Row, c4) \<and>
      column_u64 test_engine c4 6 = 0x7FFFFFFFFFFFFFFF"
    using w [THEN conjunct1, THEN mp, OF le, THEN conjunct2, THEN conjunct2, THEN conjunct2,
        THEN conjunct2]
    by (simp add: test_engine_def length_v1_columns)
  have gt: "(0x8000000000000000 :: 64 word) > INT64_MAX"
    by (simp add: INT64_MAX_def)
  with bind_arg_throw_policy [where v = "0x8000000000000000" and index = 7 and E = test_engine
      and stmt = ?c]
  have "fst (bind_arg_throw test_engine ?c 7 0x8000000000000000) = Inl OutOfBoundsError"
    by simp
  with le b e gt show ?thesis
    by simp
qed

text \<open>
  C10. The throwing bindings are atomic. For a value above the signed range, 64-bit or
  32-bit, \<^verbatim>\<open>bind_arg_throw\<close> throws \<^verbatim>\<open>OutOfBoundsError\<close> and returns the engine state
  it was given, whatever the engine is: no entry point of the engine has had a part in
  the result, and bindings and cursor are as before.
\<close>

theorem bind_arg_throw_atomic:
  "(v > INT64_MAX \<longrightarrow> bind_arg_throw E stmt index v = (Inl OutOfBoundsError, stmt)) \<and>
   (w > INT_MAX \<longrightarrow> bind_arg_throw_u32 E stmt index w = (Inl OutOfBoundsError, stmt))"
  by (simp add: bind_arg_throw_def bind_arg_throw_u32_def)

theorem bind_arg_throw_atomic_witness:
  "(0x8000000000000000 :: 64 word) > INT64_MAX \<and>
   bind_arg_throw test_engine
     \<lparr>c_table = Some (v1_columns, []), c_locked = False,
      c_stmt = Some (new_prepared Insert 7)\<rparr> 2 0x8000000000000000
   = (Inl OutOfBoundsError,
      \<lparr>c_table = Some (v1_columns, []), c_locked = False,
       c_stmt = Some (new_prepared Insert 7)\<rparr>) \<and>
   (0x80000000 :: 32 word) > INT_MAX \<and>
   bind_arg_throw_u32 test_engine
     \<lparr>c_table = Some (v1_columns, []), c_locked = False,
      c_stmt = Some (new_prepared Insert 7)\<rparr> 2 0x80000000
   = (Inl OutOfBoundsError,
      \<lparr>c_table = Some (v1_columns, []), c_locked = False,
       c_stmt = Some (new_prepared Insert 7)\<rparr>)"
  using bind_arg_throw_atomic [where v = "0x8000000000000000" and w = "0x80000000"
     and index = 2 and E = "test_engine"
     and stmt = "\<lparr>c_table = Some (v1_columns, []), c_locked = False,
                  c_stmt = Some (new_prepared Insert 7)\<rparr>"]
  by (simp add: INT64_MAX_def INT_MAX_def)

section \<open>Properties of the query\<close>



lemma step_state: "snd (step E stmt) = snd (sqlite3_step E stmt)"
  by (cases "sqlite3_step E stmt") (simp add: step_def)

lemma step_Row:
  "fst (sqlite3_step E stmt) = SQLITE_ROW \<Longrightarrow> step E stmt = (Inr Row, snd (sqlite3_step E stmt))"
  by (cases "sqlite3_step E stmt") (simp add: step_def)

lemma step_Done:
  "fst (sqlite3_step E stmt) = SQLITE_DONE \<Longrightarrow> step E stmt = (Inr Done, snd (sqlite3_step E stmt))"
  by (cases "sqlite3_step E stmt") (simp add: step_def SQLITE_ROW_def SQLITE_DONE_def)



lemma collect_at_end:
  "collect (Suc n) E Query_end q acc = Some (Inr acc, Query_end, q)"
  by (simp add: collect.simps Iterator_eq_def)

lemma collect_advance_Row:
  assumes "m_fetch_stmt q = Some r" and "m_current q = Some v"
    and "fst (sqlite3_step E r) = SQLITE_ROW"
  shows "collect (Suc n) E \<lparr>m_query = Some this\<rparr> q acc =
         collect n E \<lparr>m_query = Some this\<rparr>
           (q\<lparr>m_current := Some (m_f q (snd (sqlite3_step E r))),
              m_fetch_stmt := Some (snd (sqlite3_step E r))\<rparr>) (acc @ [v])"
proof -
  have "\<not> Iterator_eq \<lparr>m_query = Some this\<rparr> Query_end"
    by (simp add: Iterator_eq_def Query_end_def)
  moreover have "operator_deref \<lparr>m_query = Some this\<rparr> q = Inr v"
    using assms(2) by (simp add: operator_deref_def)
  moreover have "operator_inc E \<lparr>m_query = Some this\<rparr> q =
      (Inr (), \<lparr>m_query = Some this\<rparr>,
       q\<lparr>m_current := Some (m_f q (snd (sqlite3_step E r))),
         m_fetch_stmt := Some (snd (sqlite3_step E r))\<rparr>)"
    using assms(1) step_Row [OF assms(3)] by (simp add: operator_inc_def)
  ultimately show ?thesis
    by (simp only: collect.simps if_False sum.case prod.case)
qed

lemma collect_advance_Done:
  assumes "m_fetch_stmt q = Some r" and "m_current q = Some v"
    and "fst (sqlite3_step E r) = SQLITE_DONE"
  shows "collect (Suc n) E \<lparr>m_query = Some this\<rparr> q acc =
         collect n E Query_end (q\<lparr>m_fetch_stmt := None\<rparr>) (acc @ [v])"
proof -
  have "\<not> Iterator_eq \<lparr>m_query = Some this\<rparr> Query_end"
    by (simp add: Iterator_eq_def Query_end_def)
  moreover have "operator_deref \<lparr>m_query = Some this\<rparr> q = Inr v"
    using assms(2) by (simp add: operator_deref_def)
  moreover have "operator_inc E \<lparr>m_query = Some this\<rparr> q =
      (Inr (), Query_end, q\<lparr>m_fetch_stmt := None\<rparr>)"
    using assms(1) step_Done [OF assms(3)] by (simp add: operator_inc_def Query_end_def)
  ultimately show ?thesis
    by (simp only: collect.simps if_False sum.case prod.case)
qed

lemma collect_rows:
  "produces E r rs \<Longrightarrow> m_fetch_stmt q = Some r \<Longrightarrow> m_current q = Some v \<Longrightarrow>
   \<exists>q'. collect (Suc (Suc (length rs + k))) E \<lparr>m_query = Some this\<rparr> q acc
           = Some (Inr (acc @ v # map (m_f q) rs), Query_end, q') \<and> finished q'"
proof (induction rs arbitrary: r q v acc)
  case Nil
  then have "fst (sqlite3_step E r) = SQLITE_DONE"
    by simp
  from collect_advance_Done [OF Nil(2,3) this]
  have "collect (Suc (Suc k)) E \<lparr>m_query = Some this\<rparr> q acc =
        collect (Suc k) E Query_end (q\<lparr>m_fetch_stmt := None\<rparr>) (acc @ [v])" .
  then show ?case
    by (simp add: collect_at_end finished_def)
next
  case (Cons r' rs)
  from Cons.prems(1) have row: "fst (sqlite3_step E r) = SQLITE_ROW"
    and r': "snd (sqlite3_step E r) = r'" and p: "produces E r' rs"
    by simp_all
  let ?q = "q\<lparr>m_current := Some (m_f q r'), m_fetch_stmt := Some r'\<rparr>"
  have "\<exists>q'. collect (Suc (Suc (length rs + k))) E \<lparr>m_query = Some this\<rparr> ?q (acc @ [v])
      = Some (Inr ((acc @ [v]) @ m_f q r' # map (m_f ?q) rs), Query_end, q') \<and> finished q'"
    by (rule Cons.IH [OF p]) simp_all
  moreover have "collect (Suc (Suc (length (r' # rs) + k))) E \<lparr>m_query = Some this\<rparr> q acc =
      collect (Suc (Suc (length rs + k))) E \<lparr>m_query = Some this\<rparr> ?q (acc @ [v])"
    using collect_advance_Row [OF Cons.prems(2,3) row, of "Suc (Suc (length rs + k))" this acc]
    by (simp add: r')
  ultimately show ?case
    by simp
qed


lemma produces_two:
  "produces test_engine (get_fetch_stmt [[IntegerV 42], [IntegerV 21]])
     [standing_on [[IntegerV 42], [IntegerV 21]] [IntegerV 42] [[IntegerV 21]],
      standing_on [[IntegerV 42], [IntegerV 21]] [IntegerV 21] []]"
  by (simp add: engine_simps)

lemma produces_none: "produces test_engine (get_fetch_stmt []) []"
  by (simp add: engine_simps)

text \<open>
  C5. A query built on a statement whose result set is the rows \<open>rs\<close> exists (the
  constructor does not throw); read to its end it yields the decoded rows, \<open>map f rs\<close>,
  in the order of the statement, with any fuel above the number of rows, and is then
  finished. For no rows the query is finished as built and \<^verbatim>\<open>begin()\<close> equals
  \<^verbatim>\<open>end()\<close>.
\<close>

theorem query_yields_rows:
  assumes "produces E stmt rs"
  shows "\<exists>q. Query E stmt f = Inr q \<and>
           (rs = [] \<longrightarrow> finished q \<and> Iterator_eq (Query_begin this q) Query_end) \<and>
           (\<forall>fuel > length rs. \<exists>q'.
              collect fuel E (Query_begin this q) q [] = Some (Inr (map f rs), Query_end, q') \<and>
              finished q')"
proof (cases rs)
  case Nil
  let ?q = "\<lparr>m_current = None, m_fetch_stmt = None, m_f = f\<rparr>"
  from Nil assms have "step E stmt = (Inr Done, snd (sqlite3_step E stmt))"
    by (simp add: step_Done)
  then have q: "Query E stmt f = Inr ?q"
    by (simp add: Query_def)
  have b: "Query_begin this ?q = Query_end"
    by (simp add: Query_begin_def Query_current_def finished_def)
  have "collect fuel E (Query_begin this ?q) ?q [] = Some (Inr [], Query_end, ?q)"
    if "0 < fuel" for fuel
  proof -
    from that obtain n where "fuel = Suc n"
      by (cases fuel) simp_all
    with b show ?thesis
      by (simp only: collect_at_end)
  qed
  with q b Nil show ?thesis
    by (simp add: finished_def Iterator_eq_def)
next
  case (Cons r rs')
  let ?q = "\<lparr>m_current = Some (f r), m_fetch_stmt = Some r, m_f = f\<rparr>"
  from Cons assms have st: "step E stmt = (Inr Row, r)" and p: "produces E r rs'"
    by (simp_all add: step_Row)
  from st have q: "Query E stmt f = Inr ?q"
    by (simp add: Query_def)
  have b: "Query_begin this ?q = \<lparr>m_query = Some this\<rparr>"
    by (simp add: Query_begin_def Query_current_def finished_def)
  have "\<exists>q'. collect fuel E (Query_begin this ?q) ?q [] = Some (Inr (map f rs), Query_end, q') \<and>
          finished q'"
    if "length rs < fuel" for fuel
  proof -
    from that Cons obtain k where "fuel = Suc (Suc (length rs') + k)"
      using less_imp_Suc_add [of "Suc (length rs')" fuel] by auto
    then have fuel: "fuel = Suc (Suc (length rs' + k))"
      by simp
    from collect_rows [OF p, of ?q "f r" k this "[]"] Cons
    show ?thesis
      by (simp add: b fuel)
  qed
  with q Cons show ?thesis
    by simp
qed
text \<open>The two rows 42 and 21 of \<^verbatim>\<open>test_iter_vec\<close>, and the empty table of \<^verbatim>\<open>test_iter_empty\<close>.\<close>

theorem query_yields_rows_witness:
  "produces test_engine (get_fetch_stmt [[IntegerV 42], [IntegerV 21]])
     [standing_on [[IntegerV 42], [IntegerV 21]] [IntegerV 42] [[IntegerV 21]],
      standing_on [[IntegerV 42], [IntegerV 21]] [IntegerV 21] []] \<and>
   (\<exists>q q'. Query test_engine (get_fetch_stmt [[IntegerV 42], [IntegerV 21]])
             (fetch_value test_engine) = Inr q \<and>
           collect 3 test_engine (Query_begin () q) q [] = Some (Inr [42, 21], Query_end, q') \<and>
           finished q') \<and>
   produces test_engine (get_fetch_stmt []) [] \<and>
   (\<exists>q. Query test_engine (get_fetch_stmt []) (fetch_value test_engine) = Inr q \<and>
        finished q \<and> Iterator_eq (Query_begin () q) Query_end)"
proof -
  have v: "fetch_value test_engine
             (standing_on [[IntegerV 42], [IntegerV 21]] [IntegerV 42] [[IntegerV 21]]) = 42"
    "fetch_value test_engine
             (standing_on [[IntegerV 42], [IntegerV 21]] [IntegerV 21] []) = 21"
    by (simp_all add: fetch_value_def column_i64_def engine_simps)
  from query_yields_rows [OF produces_two, of "fetch_value test_engine" "()"]
    query_yields_rows [OF produces_none, of "fetch_value test_engine" "()"]
    produces_two produces_none v
  show ?thesis
    by (auto simp add: numeral_3_eq_3)
qed


lemma Query_current_populated:
  assumes "Query E stmt f = Inr q" and "\<not> finished q"
  shows "m_current q \<noteq> None"
proof (cases "step E stmt")
  case (Pair x stmt')
  show ?thesis
  proof (cases x)
    case (Inl e)
    with Pair assms show ?thesis by (simp add: Query_def)
  next
    case (Inr res)
    with Pair assms show ?thesis by (cases res) (auto simp add: Query_def finished_def)
  qed
qed

lemma operator_inc_current_populated:
  assumes "operator_inc E \<lparr>m_query = Some p\<rparr> q = (r, it', q')"
    and "\<not> finished q" and "m_current q \<noteq> None" and "\<not> finished q'"
  shows "m_current q' \<noteq> None"
proof -
  from assms(2) obtain stmt where stmt: "m_fetch_stmt q = Some stmt"
    by (auto simp add: finished_def)
  show ?thesis
  proof (cases "step E stmt")
    case (Pair x stmt')
    show ?thesis
    proof (cases x)
      case (Inl e)
      with Pair stmt assms show ?thesis by (auto simp add: operator_inc_def)
    next
      case (Inr res)
      with Pair stmt assms show ?thesis
        by (cases res) (auto simp add: operator_inc_def finished_def)
    qed
  qed
qed

lemma Query_one_row:
  "Query test_engine (get_fetch_stmt [[IntegerV 42]]) (fetch_value test_engine) =
     Inr \<lparr>m_current = Some 42,
          m_fetch_stmt = Some (standing_on [[IntegerV 42]] [IntegerV 42] []),
          m_f = fetch_value test_engine\<rparr>"
  by (simp add: Query_def step_def fetch_value_def column_i64_def engine_simps)

lemma operator_inc_one_row:
  "operator_inc test_engine \<lparr>m_query = Some ()\<rparr>
     \<lparr>m_current = Some 42,
      m_fetch_stmt = Some (standing_on [[IntegerV 42]] [IntegerV 42] []),
      m_f = fetch_value test_engine\<rparr> =
   (Inr (), Query_end,
    \<lparr>m_current = Some 42, m_fetch_stmt = None, m_f = fetch_value test_engine\<rparr>)"
  by (simp add: operator_inc_def step_def Query_end_def engine_simps)

text \<open>
  C8, as the claim states it: the current value is populated if and only if the
  statement is still held. \<^verbatim>\<open>operator++\<close> on \<open>Done\<close> empties \<^verbatim>\<open>fetch_stmt_\<close> and
  leaves \<^verbatim>\<open>current_\<close> alone: after the only row of a table the query is finished and
  still holds 42.
\<close>

theorem query_invariant_counterexample:
  "Query test_engine (get_fetch_stmt [[IntegerV 42]]) (fetch_value test_engine) =
     Inr \<lparr>m_current = Some 42,
          m_fetch_stmt = Some (standing_on [[IntegerV 42]] [IntegerV 42] []),
          m_f = fetch_value test_engine\<rparr> \<and>
   fst (sqlite3_step test_engine (standing_on [[IntegerV 42]] [IntegerV 42] [])) = SQLITE_DONE \<and>
   operator_inc test_engine \<lparr>m_query = Some ()\<rparr>
     \<lparr>m_current = Some 42,
      m_fetch_stmt = Some (standing_on [[IntegerV 42]] [IntegerV 42] []),
      m_f = fetch_value test_engine\<rparr> =
   (Inr (), Query_end,
    \<lparr>m_current = Some 42, m_fetch_stmt = None, m_f = fetch_value test_engine\<rparr>) \<and>
   reachable test_engine
     \<lparr>m_current = Some (42 :: 64 word), m_fetch_stmt = None, m_f = fetch_value test_engine\<rparr> \<and>
   m_current \<lparr>m_current = Some (42 :: 64 word), m_fetch_stmt = None,
              m_f = fetch_value test_engine\<rparr> = Some 42 \<and>
   finished \<lparr>m_current = Some (42 :: 64 word), m_fetch_stmt = None,
             m_f = fetch_value test_engine\<rparr>"
proof -
  have "reachable test_engine
     \<lparr>m_current = Some (42 :: 64 word),
      m_fetch_stmt = Some (standing_on [[IntegerV 42]] [IntegerV 42] []),
      m_f = fetch_value test_engine\<rparr>"
    by (rule reachable.constructed [OF Query_one_row])
  then have "reachable test_engine
     \<lparr>m_current = Some (42 :: 64 word), m_fetch_stmt = None, m_f = fetch_value test_engine\<rparr>"
    by (rule reachable.advanced [OF _ _ operator_inc_one_row]) (simp add: finished_def)
  moreover have "fst (sqlite3_step test_engine (standing_on [[IntegerV 42]] [IntegerV 42] []))
      = SQLITE_DONE"
    by (simp add: engine_simps)
  ultimately show ?thesis
    using Query_one_row operator_inc_one_row by (simp add: finished_def)
qed

text \<open>
  C8, amended. In every reachable state of a query, if the statement is still held then
  the current value is populated. Advancing a query whose statement reports \<open>Done\<close>
  releases the statement and makes the iterator the end iterator; the query is then
  finished, and its current value is the one it had.
\<close>

theorem query_invariant:
  "(reachable E q \<longrightarrow> \<not> finished q \<longrightarrow> m_current q \<noteq> None) \<and>
   (m_fetch_stmt q = Some stmt \<longrightarrow> fst (sqlite3_step E stmt) = SQLITE_DONE \<longrightarrow>
      operator_inc E \<lparr>m_query = Some this\<rparr> q = (Inr (), Query_end, q\<lparr>m_fetch_stmt := None\<rparr>))"
proof -
  have "\<not> finished q \<longrightarrow> m_current q \<noteq> None" if "reachable E q"
    using that
  proof (induction rule: reachable.induct)
    case (constructed stmt f q)
    show ?case
    proof
      assume "\<not> finished q"
      with constructed show "m_current q \<noteq> None"
        by (rule Query_current_populated)
    qed
  next
    case (advanced q r it' q')
    show ?case
    proof
      assume fin: "\<not> finished q'"
      from advanced have cur: "m_current q \<noteq> None" and nf: "\<not> finished q"
        and inc: "operator_inc E \<lparr>m_query = Some ()\<rparr> q = (r, it', q')"
        by simp_all
      from inc nf cur fin show "m_current q' \<noteq> None"
        by (rule operator_inc_current_populated)
    qed
  qed
  moreover have "operator_inc E \<lparr>m_query = Some this\<rparr> q = (Inr (), Query_end, q\<lparr>m_fetch_stmt := None\<rparr>)"
    if "m_fetch_stmt q = Some stmt" "fst (sqlite3_step E stmt) = SQLITE_DONE"
    using that by (simp add: operator_inc_def step_Done Query_end_def)
  ultimately show ?thesis
    by blast
qed



theorem query_invariant_witness:
  "reachable test_engine
     \<lparr>m_current = Some (42 :: 64 word),
      m_fetch_stmt = Some (standing_on [[IntegerV 42]] [IntegerV 42] []),
      m_f = fetch_value test_engine\<rparr> \<and>
   \<not> finished \<lparr>m_current = Some (42 :: 64 word),
      m_fetch_stmt = Some (standing_on [[IntegerV 42]] [IntegerV 42] []),
      m_f = fetch_value test_engine\<rparr> \<and>
   m_current \<lparr>m_current = Some (42 :: 64 word),
      m_fetch_stmt = Some (standing_on [[IntegerV 42]] [IntegerV 42] []),
      m_f = fetch_value test_engine\<rparr> \<noteq> None \<and>
   fst (sqlite3_step test_engine (standing_on [[IntegerV 42]] [IntegerV 42] [])) = SQLITE_DONE \<and>
   operator_inc test_engine \<lparr>m_query = Some ()\<rparr>
     \<lparr>m_current = Some 42,
      m_fetch_stmt = Some (standing_on [[IntegerV 42]] [IntegerV 42] []),
      m_f = fetch_value test_engine\<rparr> =
   (Inr (), Query_end,
    \<lparr>m_current = Some 42, m_fetch_stmt = None, m_f = fetch_value test_engine\<rparr>)"
proof -
  let ?q = "\<lparr>m_current = Some (42 :: 64 word),
      m_fetch_stmt = Some (standing_on [[IntegerV 42]] [IntegerV 42] []),
      m_f = fetch_value test_engine\<rparr>"
  have r: "reachable test_engine ?q"
    by (rule reachable.constructed [OF Query_one_row])
  have d: "fst (sqlite3_step test_engine (standing_on [[IntegerV 42]] [IntegerV 42] []))
      = SQLITE_DONE"
    by (simp add: engine_simps)
  from r d query_invariant [of test_engine ?q "standing_on [[IntegerV 42]] [IntegerV 42] []" "()"]
  show ?thesis
    by (simp add: finished_def)
qed


section \<open>Properties of the metadata envelope\<close>

text \<open>
  What \<^verbatim>\<open>create_metadata\<close>, \<^verbatim>\<open>update_metadata\<close> and \<^verbatim>\<open>read_metadata\<close> do on the
  reference engine, for any two conversions.
\<close>

lemmas fixture_simps = MetadataWriter_write_def dummy_md_def empty_db_def legacy_db_def

lemmas wrapper_simps = exec_def Statement_def with_Statement_def and_then_def
  bind_result_def bind_arg_cast_def bind_arg_cast_u32_def bind_text_without_copy_def
  bind_text_impl_def step_def write_metadata_def metadata_version_def

lemma create_metadata_fresh:
  assumes "c_table c = None" and "\<not> c_locked c"
  shows "create_metadata (reference_engine t2i i2t) c md =
         (Inr (), c\<lparr>c_table := Some (v1_columns,
              [[IntegerV 1, IntegerV (sint (m_type md)), TextV (m_format_version md),
                TextV (m_tool_name md), TextV (m_tool_version md), TextV (m_tool_info md),
                IntegerV (sint (m_generation_date md))]]),
            c_stmt := None\<rparr>)"
  using assms
  by (simp add: create_metadata_def wrapper_simps engine_simps length_v1_columns replicate_7
      eval_nat_numeral)


lemmas read_simps = read_metadata_def read_columns_def column_u32_def column_u64_def
  column_text_def

lemma read_metadata_v1:
  assumes "c_table c = Some (v1_columns, [[IntegerV 1, IntegerV t, TextV fv, TextV tn,
             TextV tv, TextV ti, IntegerV gd]])"
    and "\<not> c_locked c"
  shows "read_metadata (reference_engine t2i i2t) c =
         (Inr (1, \<lparr>m_type = word_of_int t, m_format_version = c_str_prefix fv,
                  m_tool_name = c_str_prefix tn, m_tool_version = c_str_prefix tv,
                  m_tool_info = c_str_prefix ti, m_generation_date = word_of_int gd\<rparr>),
          c\<lparr>c_stmt := None\<rparr>)"
  using assms
  by (simp add: read_simps wrapper_simps engine_simps sql_distinct v1_columns_def Let_def)

lemma read_metadata_legacy:
  assumes "c_table c = Some (cols, [[IntegerV t, TextV fv, TextV tn, TextV ti, IntegerV gd]])"
    and "''metadata_version'' \<notin> set cols"
    and "\<not> c_locked c"
  shows "read_metadata (reference_engine t2i i2t) c =
         (Inr (0, \<lparr>m_type = word_of_int t, m_format_version = c_str_prefix fv,
                  m_tool_name = c_str_prefix tn, m_tool_version = ''1.0.0-prerelease'',
                  m_tool_info = c_str_prefix ti, m_generation_date = word_of_int gd\<rparr>),
          c\<lparr>c_stmt := None\<rparr>)"
  using assms
  by (simp add: read_simps wrapper_simps engine_simps sql_distinct Let_def)


lemma c_str_prefix_nul_free: "CHR 0x00 \<notin> set s \<Longrightarrow> c_str_prefix s = s"
  by (simp add: c_str_prefix_def takeWhile_eq_all_conv) metis

lemma create_then_read:
  assumes "c_table c = None" and "\<not> c_locked c"
  shows "\<exists>c'. create_metadata (reference_engine t2i i2t) c md = (Inr (), c') \<and>
           fst (read_metadata (reference_engine t2i i2t) c') =
             Inr (1, md\<lparr>m_format_version := c_str_prefix (m_format_version md),
                        m_tool_name := c_str_prefix (m_tool_name md),
                        m_tool_version := c_str_prefix (m_tool_version md),
                        m_tool_info := c_str_prefix (m_tool_info md)\<rparr>)"
proof -
  let ?c' = "c\<lparr>c_table := Some (v1_columns,
              [[IntegerV 1, IntegerV (sint (m_type md)), TextV (m_format_version md),
                TextV (m_tool_name md), TextV (m_tool_version md), TextV (m_tool_info md),
                IntegerV (sint (m_generation_date md))]]),
            c_stmt := None\<rparr>"
  have "create_metadata (reference_engine t2i i2t) c md = (Inr (), ?c')"
    using assms by (rule create_metadata_fresh)
  moreover have "fst (read_metadata (reference_engine t2i i2t) ?c') =
             Inr (1, md\<lparr>m_format_version := c_str_prefix (m_format_version md),
                        m_tool_name := c_str_prefix (m_tool_name md),
                        m_tool_version := c_str_prefix (m_tool_version md),
                        m_tool_info := c_str_prefix (m_tool_info md)\<rparr>)"
    using assms
    by (subst read_metadata_v1 [where t = "sint (m_type md)" and gd = "sint (m_generation_date md)"
          and fv = "m_format_version md" and tn = "m_tool_name md"
          and tv = "m_tool_version md" and ti = "m_tool_info md"])
      (cases md; simp)+
  ultimately show ?thesis
    by blast
qed

lemma metadata_round_trip_nul_free:
  assumes "c_table c = None" and "\<not> c_locked c"
    and "CHR 0x00 \<notin> set (m_format_version md)" and "CHR 0x00 \<notin> set (m_tool_name md)"
    and "CHR 0x00 \<notin> set (m_tool_version md)" and "CHR 0x00 \<notin> set (m_tool_info md)"
  shows "\<exists>c'. create_metadata (reference_engine t2i i2t) c md = (Inr (), c') \<and>
           fst (read_metadata (reference_engine t2i i2t) c') = Inr (1, md)"
  using create_then_read [OF assms(1,2), of t2i i2t md] assms(3-6)
  by (simp add: c_str_prefix_nul_free)

lemma update_metadata_v1:
  assumes "c_table c = Some (v1_columns, [[o1, o2, o3, o4, o5, o6, o7]])" and "\<not> c_locked c"
  shows "update_metadata (reference_engine t2i i2t) c md =
         (Inr (), c\<lparr>c_table := Some (v1_columns,
              [[IntegerV 1, IntegerV (sint (m_type md)), TextV (m_format_version md),
                TextV (m_tool_name md), TextV (m_tool_version md), TextV (m_tool_info md),
                IntegerV (sint (m_generation_date md))]]),
            c_stmt := None\<rparr>)"
  using assms
  by (simp add: update_metadata_def wrapper_simps engine_simps sql_distinct replicate_7
      updated_row_def v1_columns_def eval_nat_numeral)

lemma update_round_trip_nul_free:
  assumes "c_table c = Some (v1_columns, [[o1, o2, o3, o4, o5, o6, o7]])" and "\<not> c_locked c"
    and "CHR 0x00 \<notin> set (m_format_version md)" and "CHR 0x00 \<notin> set (m_tool_name md)"
    and "CHR 0x00 \<notin> set (m_tool_version md)" and "CHR 0x00 \<notin> set (m_tool_info md)"
  shows "\<exists>c'. update_metadata (reference_engine t2i i2t) c md = (Inr (), c') \<and>
           fst (read_metadata (reference_engine t2i i2t) c') = Inr (1, md)"
proof -
  let ?c' = "c\<lparr>c_table := Some (v1_columns,
              [[IntegerV 1, IntegerV (sint (m_type md)), TextV (m_format_version md),
                TextV (m_tool_name md), TextV (m_tool_version md), TextV (m_tool_info md),
                IntegerV (sint (m_generation_date md))]]),
            c_stmt := None\<rparr>"
  have "update_metadata (reference_engine t2i i2t) c md = (Inr (), ?c')"
    using assms(1,2) by (rule update_metadata_v1)
  moreover have "fst (read_metadata (reference_engine t2i i2t) ?c') = Inr (1, md)"
    using assms(2-6)
    by (subst read_metadata_v1 [where t = "sint (m_type md)" and gd = "sint (m_generation_date md)"
          and fv = "m_format_version md" and tn = "m_tool_name md"
          and tv = "m_tool_version md" and ti = "m_tool_info md"])
      (cases md; simp add: c_str_prefix_nul_free)+
  ultimately show ?thesis
    by blast
qed

text \<open>
  C4. Writing an envelope and reading it back gives an envelope equal to the original,
  field for field. The two lemmas above prove it, after \<^verbatim>\<open>create_metadata\<close> and after
  \<^verbatim>\<open>update_metadata\<close>, for every type, every date and all strings without a NUL
  character. With a NUL inside a string the code does not do it: \<^verbatim>\<open>write_metadata\<close>
  binds all \<^verbatim>\<open>value.size()\<close> bytes, and \<^verbatim>\<open>column_text\<close> builds the string it returns
  from a \<^verbatim>\<open>const char*\<close>, which ends at the first NUL. Here the code runs on the
  metadata of the tests with the format version \<^verbatim>\<open>a\0b\<close>: the row holds the three
  bytes, and the envelope read back has the format version \<^verbatim>\<open>a\<close>.
\<close>

theorem metadata_round_trip_embedded_nul:
  "ResourceDatabase_from_memory test_engine
     (MetadataWriter_write 42 [CHR ''a'', CHR 0x00, CHR ''b''] ''TestMetaDataWriter'' ''1.0.0''
        ''Tests version 1.0.0'' 42424242) =
     Inr \<lparr>m_db = \<lparr>c_table = Some (v1_columns,
                      [[IntegerV 1, IntegerV 42, TextV [CHR ''a'', CHR 0x00, CHR ''b''],
                        TextV ''TestMetaDataWriter'', TextV ''1.0.0'',
                        TextV ''Tests version 1.0.0'', IntegerV 42424242]]),
                  c_locked = False, c_stmt = None\<rparr>,
          m_md = MetadataWriter_write 42 [CHR ''a'', CHR 0x00, CHR ''b''] ''TestMetaDataWriter''
                   ''1.0.0'' ''Tests version 1.0.0'' 42424242,
          m_md_version = 1\<rparr> \<and>
   fst (read_metadata test_engine
     \<lparr>c_table = Some (v1_columns,
                      [[IntegerV 1, IntegerV 42, TextV [CHR ''a'', CHR 0x00, CHR ''b''],
                        TextV ''TestMetaDataWriter'', TextV ''1.0.0'',
                        TextV ''Tests version 1.0.0'', IntegerV 42424242]]),
      c_locked = False, c_stmt = None\<rparr>) =
     Inr (1, MetadataWriter_write 42 ''a'' ''TestMetaDataWriter'' ''1.0.0''
               ''Tests version 1.0.0'' 42424242) \<and>
   MetadataWriter_write 42 ''a'' ''TestMetaDataWriter'' ''1.0.0'' ''Tests version 1.0.0'' 42424242
     \<noteq> MetadataWriter_write 42 [CHR ''a'', CHR 0x00, CHR ''b''] ''TestMetaDataWriter'' ''1.0.0''
         ''Tests version 1.0.0'' 42424242"
proof -
  have "create_metadata test_engine empty_db
     (MetadataWriter_write 42 [CHR ''a'', CHR 0x00, CHR ''b''] ''TestMetaDataWriter'' ''1.0.0''
        ''Tests version 1.0.0'' 42424242) =
     (Inr (), \<lparr>c_table = Some (v1_columns,
                      [[IntegerV 1, IntegerV 42, TextV [CHR ''a'', CHR 0x00, CHR ''b''],
                        TextV ''TestMetaDataWriter'', TextV ''1.0.0'',
                        TextV ''Tests version 1.0.0'', IntegerV 42424242]]),
                  c_locked = False, c_stmt = None\<rparr>)"
    unfolding test_engine_def
    by (subst create_metadata_fresh) (simp_all add: fixture_simps)
  moreover have "from_memory test_engine = Inr empty_db"
    by (simp add: from_memory_def Database_def empty_db_def engine_simps)
  ultimately have "ResourceDatabase_from_memory test_engine
     (MetadataWriter_write 42 [CHR ''a'', CHR 0x00, CHR ''b''] ''TestMetaDataWriter'' ''1.0.0''
        ''Tests version 1.0.0'' 42424242) =
     Inr \<lparr>m_db = \<lparr>c_table = Some (v1_columns,
                      [[IntegerV 1, IntegerV 42, TextV [CHR ''a'', CHR 0x00, CHR ''b''],
                        TextV ''TestMetaDataWriter'', TextV ''1.0.0'',
                        TextV ''Tests version 1.0.0'', IntegerV 42424242]]),
                  c_locked = False, c_stmt = None\<rparr>,
          m_md = MetadataWriter_write 42 [CHR ''a'', CHR 0x00, CHR ''b''] ''TestMetaDataWriter''
                   ''1.0.0'' ''Tests version 1.0.0'' 42424242,
          m_md_version = 1\<rparr>"
    by (simp add: ResourceDatabase_from_memory_def convert_db_def metadata_version_def)
  moreover have "fst (read_metadata test_engine
     \<lparr>c_table = Some (v1_columns,
                      [[IntegerV 1, IntegerV 42, TextV [CHR ''a'', CHR 0x00, CHR ''b''],
                        TextV ''TestMetaDataWriter'', TextV ''1.0.0'',
                        TextV ''Tests version 1.0.0'', IntegerV 42424242]]),
      c_locked = False, c_stmt = None\<rparr>) =
     Inr (1, MetadataWriter_write 42 ''a'' ''TestMetaDataWriter'' ''1.0.0''
               ''Tests version 1.0.0'' 42424242)"
    unfolding test_engine_def
    by (subst read_metadata_v1 [where t = 42 and gd = 42424242
          and fv = "[CHR ''a'', CHR 0x00, CHR ''b'']" and tn = "''TestMetaDataWriter''"
          and tv = "''1.0.0''" and ti = "''Tests version 1.0.0''"])
      (simp_all add: fixture_simps c_str_prefix_def)
  ultimately show ?thesis
    by (simp add: MetadataWriter_write_def)
qed

text \<open>
  C6. Reading the envelope of a database of the legacy schema succeeds. With no
  \<^verbatim>\<open>metadata_version\<close> column in \<^verbatim>\<open>_metadata\<close> and one row of the five legacy values,
  \<^verbatim>\<open>read_metadata\<close> returns the version 0 and the envelope whose type, format version,
  tool name, tool info and generation date are the columns 0 to 4 in this order, and
  whose tool version is \<^verbatim>\<open>1.0.0-prerelease\<close>.
\<close>

theorem read_legacy_metadata:
  assumes "c_table c = Some (cols, [[IntegerV t, TextV fv, TextV tn, TextV ti, IntegerV gd]])"
    and "''metadata_version'' \<notin> set cols"
    and "\<not> c_locked c"
  shows "fst (read_metadata (reference_engine t2i i2t) c) =
         Inr (0, \<lparr>m_type = word_of_int t, m_format_version = c_str_prefix fv,
                  m_tool_name = c_str_prefix tn, m_tool_version = ''1.0.0-prerelease'',
                  m_tool_info = c_str_prefix ti, m_generation_date = word_of_int gd\<rparr>)"
  using assms by (simp add: read_metadata_legacy)

theorem read_legacy_metadata_witness:
  "fst (read_metadata test_engine legacy_db) =
     Inr (0, MetadataWriter_write 42 ''1.0.0-dummy'' ''TestMetaDataWriter'' ''1.0.0-prerelease''
               ''Tests version 1.0.0'' 42424242) \<and>
   from_db test_engine legacy_db =
     Inr \<lparr>m_db = legacy_db,
          m_md = MetadataWriter_write 42 ''1.0.0-dummy'' ''TestMetaDataWriter''
                   ''1.0.0-prerelease'' ''Tests version 1.0.0'' 42424242,
          m_md_version = 0\<rparr>"
proof -
  have "fst (read_metadata test_engine legacy_db) =
     Inr (0, MetadataWriter_write 42 ''1.0.0-dummy'' ''TestMetaDataWriter'' ''1.0.0-prerelease''
               ''Tests version 1.0.0'' 42424242)"
    unfolding test_engine_def
    by (subst read_legacy_metadata [where t = 42 and gd = 42424242 and fv = "''1.0.0-dummy''"
          and tn = "''TestMetaDataWriter''" and ti = "''Tests version 1.0.0''"
          and cols = "[''type'', ''format_version'', ''tool_name'', ''tool_info'',
                        ''generation_date'']"])
      (simp_all add: fixture_simps c_str_prefix_def)
  moreover have "snd (read_metadata test_engine legacy_db) = legacy_db"
    unfolding test_engine_def
    by (subst read_metadata_legacy [where t = 42 and gd = 42424242 and fv = "''1.0.0-dummy''"
          and tn = "''TestMetaDataWriter''" and ti = "''Tests version 1.0.0''"
          and cols = "[''type'', ''format_version'', ''tool_name'', ''tool_info'',
                        ''generation_date'']"])
      (simp_all add: fixture_simps)
  ultimately show ?thesis
    by (cases "read_metadata test_engine legacy_db") (simp add: from_db_def)
qed

text \<open>
  C7. If the cached schema version differs from \<^verbatim>\<open>metadata_version\<close>,
  \<^verbatim>\<open>set_metadata\<close> throws \<^verbatim>\<open>WriteMetadataError\<close> and leaves the object, its cached
  envelope and the state of the engine as they were, whatever the engine is.
\<close>

theorem set_metadata_version_check:
  "m_md_version rdb \<noteq> metadata_version \<Longrightarrow>
     set_metadata E rdb metadata = (Inl WriteMetadataError, rdb)"
  by (simp add: set_metadata_def)


text \<open>The database of the legacy schema, as \<^verbatim>\<open>from_db\<close> opens it.\<close>

theorem set_metadata_version_check_witness:
  "m_md_version \<lparr>m_db = legacy_db,
      m_md = MetadataWriter_write 42 ''1.0.0-dummy'' ''TestMetaDataWriter''
               ''1.0.0-prerelease'' ''Tests version 1.0.0'' 42424242,
      m_md_version = 0\<rparr> \<noteq> metadata_version \<and>
   set_metadata test_engine
     \<lparr>m_db = legacy_db,
      m_md = MetadataWriter_write 42 ''1.0.0-dummy'' ''TestMetaDataWriter''
               ''1.0.0-prerelease'' ''Tests version 1.0.0'' 42424242,
      m_md_version = 0\<rparr> dummy_md =
   (Inl WriteMetadataError,
    \<lparr>m_db = legacy_db,
      m_md = MetadataWriter_write 42 ''1.0.0-dummy'' ''TestMetaDataWriter''
               ''1.0.0-prerelease'' ''Tests version 1.0.0'' 42424242,
      m_md_version = 0\<rparr>)"
  using set_metadata_version_check [of "\<lparr>m_db = legacy_db,
      m_md = MetadataWriter_write 42 ''1.0.0-dummy'' ''TestMetaDataWriter''
               ''1.0.0-prerelease'' ''Tests version 1.0.0'' 42424242,
      m_md_version = 0\<rparr>" test_engine dummy_md]
  by (simp add: metadata_version_def)



section \<open>Errors of the engine\<close>













































end
